theory Spec2Isabelle
  imports Main "HOL-Library.Multiset"
begin

section \<open>Zone-based detection counting (yolo\_runner.py)\<close>

text \<open>
  The development embeds the counting pipeline of \<^verbatim>\<open>yolo_runner.py\<close>:
  \<^verbatim>\<open>draw_zones_on_frame\<close>, \<^verbatim>\<open>process_frame_counts\<close> and the zone normalisation and
  video branch of \<^verbatim>\<open>main\<close>. Python exceptions are values of \<open>error\<close>; a function
  that can raise returns \<open>error + 'a\<close> with \<open>Inl\<close> the exception.
\<close>

datatype error = TypeError | ValueError | IndexError | CvError

text \<open>
  A value read by \<^verbatim>\<open>json.load\<close>: \<^verbatim>\<open>None\<close>, a bool, an int, a string, a list or a dict
  (its entries in insertion order, one per key). JSON numbers with a fraction or an
  exponent are Python floats; they are left out, the embedding has no floating point.
\<close>

datatype json =
  JNull | JBool bool | JInt int | JStr string | JList "json list" | JDict "(string \<times> json) list"

subsection \<open>Dictionaries of counts\<close>

text \<open>
  A Python \<^verbatim>\<open>dict\<close> from class name to count, in insertion order. \<^verbatim>\<open>d.get(k, 0)\<close> is
  \<open>dict_get\<close>; the assignment \<^verbatim>\<open>d[k] = v\<close> is \<open>dict_set\<close>: an existing key keeps its
  position, a new key goes to the end. The counts are Python ints that start at 0 and
  only grow, hence \<open>nat\<close>.
\<close>

type_synonym counts = "(string \<times> nat) list"

definition dict_get :: "counts \<Rightarrow> string \<Rightarrow> nat" where
  "dict_get d k = (case map_of d k of None \<Rightarrow> 0 | Some v \<Rightarrow> v)"

fun dict_set :: "counts \<Rightarrow> string \<Rightarrow> nat \<Rightarrow> counts" where
  "dict_set [] k v = [(k, v)]"
| "dict_set ((k', v') # d) k v =
     (if k' = k then (k, v) # d else (k', v') # dict_set d k v)"

text \<open>\<^verbatim>\<open>d[k] = d.get(k, 0) + n\<close>\<close>

definition dict_add :: "counts \<Rightarrow> string \<Rightarrow> nat \<Rightarrow> counts" where
  "dict_add d k n = dict_set d k (dict_get d k + n)"

text \<open>\<^verbatim>\<open>sum(d.values())\<close>\<close>

definition sum_values :: "counts \<Rightarrow> nat" where
  "sum_values d = sum_list (map snd d)"

subsection \<open>Detections, zones, frames\<close>

text \<open>
  One box of the detector's output as the loop reads it: \<^verbatim>\<open>cls_name = model.names[cls_id]\<close>
  and \<^verbatim>\<open>x1, y1, x2, y2 = map(int, box.xyxy[0])\<close>. The detector is an external
  collaborator, so a frame is given by the boxes it reports, in emission order (the two
  nested loops over \<^verbatim>\<open>results\<close> and \<^verbatim>\<open>result.boxes\<close> visit them one after the other).
\<close>

record detection =
  cls_name :: string
  xyxy :: "int \<times> int \<times> int \<times> int"

text \<open>
  \<^verbatim>\<open>int((x1 + x2) / 2)\<close>: true division followed by truncation towards zero. On pixel
  coordinates (far below \<open>2^53\<close>) the float quotient is exact, so the value is the
  integer quotient rounded towards zero.
\<close>

definition int_half :: "int \<Rightarrow> int" where
  "int_half n = (if 0 \<le> n then n div 2 else - ((- n) div 2))"

definition center :: "detection \<Rightarrow> int \<times> int" where
  "center d = (case xyxy d of (x1, y1, x2, y2) \<Rightarrow> (int_half (x1 + x2), int_half (y1 + y2)))"

text \<open>
  A NumPy integer array: its shape and its elements in row-major order.
\<close>

datatype ndarray = NdArray (shape: "nat list") (elems: "int list")

text \<open>
  A normalised zone is one of the two dicts that \<^verbatim>\<open>main\<close> builds:
  \<^verbatim>\<open>{'type': 'rect', 'coords': (x1, y1, x2, y2), 'name': ..., 'selected': ...}\<close> or
  \<^verbatim>\<open>{'type': 'poly', 'pts': ndarray, 'name': ..., 'selected': ...}\<close>.
  The name is whatever value the zone file holds under \<^verbatim>\<open>'name'\<close>; zones from raw
  sequences get the empty string.
\<close>

datatype zone =
  Rect (coords: "int \<times> int \<times> int \<times> int") (zname: json) (selected: bool)
| Poly (pts: ndarray) (zname: json) (selected: bool)

text \<open>The keys of the zone's dict, in insertion order: what iterating the dict yields.\<close>

fun zone_keys :: "zone \<Rightarrow> string list" where
  "zone_keys (Rect _ _ _) = [''type'', ''coords'', ''name'', ''selected'']"
| "zone_keys (Poly _ _ _) = [''type'', ''pts'', ''name'', ''selected'']"

text \<open>
  A frame is an image that the OpenCV calls draw on. Only the drawing calls matter here,
  so a frame is the list of calls made on it so far.
\<close>

datatype draw =
  Polylines "(int \<times> int) list"
| Rectangle int int int int
| Circle int int
| PutText string nat int int

type_synonym frame = "draw list"

subsection \<open>OpenCV's contour functions\<close>

text \<open>
  \<^verbatim>\<open>cv2.polylines\<close> and \<^verbatim>\<open>cv2.pointPolygonTest\<close> are OpenCV's, not code of the
  repository. Both take the contour as an integer array of points. A two-dimensional
  array is a contour when it has two columns (\<open>N \<times> 2\<close>). A three-dimensional array is
  read as rows, columns and channels: it is a contour when it is one row or one column of
  two-channel points (\<open>1 \<times> N \<times> 2\<close>, \<open>N \<times> 1 \<times> 2\<close>) or has two columns of one channel
  (\<open>N \<times> 2 \<times> 1\<close>). On any other shape the call raises \<^verbatim>\<open>cv2.error\<close>. In each
  accepted shape the points are the consecutive pairs of the elements in row-major order;
  \<open>contour\<close> gives them. A contour of no points is accepted: the test then reports
  every point as outside.
\<close>

fun pairs :: "int list \<Rightarrow> (int \<times> int) list" where
  "pairs (x # y # r) = (x, y) # pairs r"
| "pairs _ = []"

fun is_contour_shape :: "nat list \<Rightarrow> bool" where
  "is_contour_shape [n, c] = (c = 2)"
| "is_contour_shape [n, m, c] = (((n = 1 \<or> m = 1) \<and> c = 2) \<or> (m = 2 \<and> c = 1))"
| "is_contour_shape _ = False"

definition contour :: "ndarray \<Rightarrow> error + (int \<times> int) list" where
  "contour a = (if is_contour_shape (shape a) then Inr (pairs (elems a)) else Inl CvError)"

text \<open>The edges of the closed polygon: each vertex joined to the next, the last to the first.\<close>

definition edges :: "(int \<times> int) list \<Rightarrow> ((int \<times> int) \<times> (int \<times> int)) list" where
  "edges ps = zip ps (rotate1 ps)"

text \<open>The point lies on the segment from \<open>a\<close> to \<open>b\<close>, ends included.\<close>

fun on_segment :: "int \<times> int \<Rightarrow> (int \<times> int) \<times> (int \<times> int) \<Rightarrow> bool" where
  "on_segment (px, py) ((ax, ay), (bx, by)) =
     ((bx - ax) * (py - ay) = (by - ay) * (px - ax)
      \<and> min ax bx \<le> px \<and> px \<le> max ax bx \<and> min ay by \<le> py \<and> py \<le> max ay by)"

text \<open>
  The horizontal ray from the point to the right crosses the edge: the edge spans the
  point's height (lower end included, upper end excluded) and meets that height strictly
  to the right of the point.
\<close>

fun crosses :: "int \<times> int \<Rightarrow> (int \<times> int) \<times> (int \<times> int) \<Rightarrow> bool" where
  "crosses (px, py) ((ax, ay), (bx, by)) =
     (if ay \<le> py \<and> py < by then (px - ax) * (by - ay) < (py - ay) * (bx - ax)
      else if by \<le> py \<and> py < ay then (px - bx) * (ay - by) < (py - by) * (ax - bx)
      else False)"

definition on_boundary :: "(int \<times> int) list \<Rightarrow> int \<times> int \<Rightarrow> bool" where
  "on_boundary ps p = list_ex (on_segment p) (edges ps)"

definition crossing_number :: "(int \<times> int) list \<Rightarrow> int \<times> int \<Rightarrow> nat" where
  "crossing_number ps p = length (filter (crosses p) (edges ps))"

text \<open>
  Modelled from the spec: \<^verbatim>\<open>cv2.pointPolygonTest(contour, point, False)\<close>, OpenCV's
  function, as the spec describes the polygon test: the crossing-number test, with the
  points of the boundary reported as \<open>0\<close>.
\<close>

definition pointPolygonTest :: "ndarray \<Rightarrow> int \<times> int \<Rightarrow> error + int" where
  "pointPolygonTest a p =
     (case contour a of
        Inl e \<Rightarrow> Inl e
      | Inr ps \<Rightarrow>
          Inr (if on_boundary ps p then 0
               else if odd (crossing_number ps p) then 1 else - 1))"

subsection \<open>draw\_zones\_on\_frame\<close>

text \<open>
  Each zone is drawn inside its own \<^verbatim>\<open>try\<close>; an exception (a polygon whose array is not
  a contour) is caught and the loop goes on with the next zone.
\<close>

fun draw_zone :: "zone \<Rightarrow> error + draw" where
  "draw_zone (Poly a _ _) =
     (case contour a of Inl e \<Rightarrow> Inl e | Inr ps \<Rightarrow> Inr (Polylines ps))"
| "draw_zone (Rect (x1, y1, x2, y2) _ _) = Inr (Rectangle x1 y1 x2 y2)"

fun draw_zones_on_frame :: "frame \<Rightarrow> zone list \<Rightarrow> frame" where
  "draw_zones_on_frame fr [] = fr"
| "draw_zones_on_frame fr (z # zs) =
     (case draw_zone z of
        Inl _ \<Rightarrow> draw_zones_on_frame fr zs
      | Inr d \<Rightarrow> draw_zones_on_frame (fr @ [d]) zs)"

subsection \<open>process\_frame\_counts\<close>

text \<open>
  The body of the \<^verbatim>\<open>try\<close> in the zone loop, for one zone and the reference point
  \<open>(cx, cy)\<close>: does the zone's count go up? An exception inside the \<^verbatim>\<open>try\<close> is caught
  and the zone is left as it is (\<^verbatim>\<open>continue\<close>).
\<close>

fun zone_hit :: "zone \<Rightarrow> int \<times> int \<Rightarrow> bool" where
  "zone_hit (Rect (zx1, zy1, zx2, zy2) _ _) (cx, cy) =
     (min zx1 zx2 < cx \<and> cx < max zx1 zx2 \<and> min zy1 zy2 < cy \<and> cy < max zy1 zy2)"
| "zone_hit (Poly a _ _) (cx, cy) =
     (case pointPolygonTest a (cx, cy) of Inl _ \<Rightarrow> False | Inr val \<Rightarrow> val \<ge> 0)"

text \<open>
  The state of the detection loop: the frame drawn on, \<^verbatim>\<open>zone_counts\<close>, \<^verbatim>\<open>class_counts\<close>
  and \<^verbatim>\<open>det_index\<close>.
\<close>

record loop_state =
  frame :: frame
  zone_counts :: "counts list"
  class_counts :: counts
  det_index :: nat

text \<open>The loop over \<^verbatim>\<open>enumerate(zones)\<close> for one detection.\<close>

definition assign_zones :: "zone list \<Rightarrow> counts list \<Rightarrow> string \<Rightarrow> int \<times> int \<Rightarrow> counts list" where
  "assign_zones zones zcs c p =
     map (\<lambda>(z, zc). if zone_hit z p then dict_add zc c 1 else zc) (zip zones zcs)"

text \<open>One pass of the loop body (lines 41 to 68) for one box.\<close>

definition detect_step :: "zone list \<Rightarrow> loop_state \<Rightarrow> detection \<Rightarrow> loop_state" where
  "detect_step zones st d =
     (let c = cls_name d;
          cc = dict_add (class_counts st) c 1;
          (x1, y1, x2, y2) = xyxy d;
          (cx, cy) = center d;
          fr = frame st @ [Rectangle x1 y1 x2 y2, Circle cx cy,
                           PutText c (dict_get cc c) x1 (y1 - 10)]
      in \<lparr> frame = fr,
           zone_counts = assign_zones zones (zone_counts st) c (cx, cy),
           class_counts = cc,
           det_index = det_index st + 1 \<rparr>)"

definition init_state :: "frame \<Rightarrow> zone list \<Rightarrow> loop_state" where
  "init_state fr zones =
     \<lparr> frame = draw_zones_on_frame fr zones,
       zone_counts = replicate (length zones) [],
       class_counts = [],
       det_index = 0 \<rparr>"

definition detect_loop :: "frame \<Rightarrow> zone list \<Rightarrow> detection list \<Rightarrow> loop_state" where
  "detect_loop fr zones dets = foldl (detect_step zones) (init_state fr zones) dets"

text \<open>
  The loop that annotates the zone totals (lines 71 to 77). \<^verbatim>\<open>x1, y1, x2, y2 = z\<close>
  unpacks the zone, a dict: it binds the four names to the dict's keys, strings, and
  raises ValueError when the dict does not have exactly four keys. For each entry of
  the zone's counts the text position \<^verbatim>\<open>(x1 + 4, y1 + y_off)\<close> is computed first, and
  adding an int to a string raises TypeError. Nothing here is inside a \<^verbatim>\<open>try\<close>.
\<close>

fun unpack4 :: "'a list \<Rightarrow> error + ('a \<times> 'a \<times> 'a \<times> 'a)" where
  "unpack4 [a, b, c, d] = Inr (a, b, c, d)"
| "unpack4 _ = Inl ValueError"

text \<open>\<^verbatim>\<open>s + n\<close> for a string \<open>s\<close> and an int \<open>n\<close>.\<close>

definition str_plus_int :: "string \<Rightarrow> int \<Rightarrow> error + int" where
  "str_plus_int s n = Inl TypeError"

fun annotate_items :: "frame \<Rightarrow> string \<Rightarrow> string \<Rightarrow> int \<Rightarrow> counts \<Rightarrow> error + frame" where
  "annotate_items fr x1 y1 y_off [] = Inr fr"
| "annotate_items fr x1 y1 y_off ((c, cnt) # items) =
     (case str_plus_int x1 4 of
        Inl e \<Rightarrow> Inl e
      | Inr tx \<Rightarrow>
          (case str_plus_int y1 y_off of
             Inl e \<Rightarrow> Inl e
           | Inr ty \<Rightarrow> annotate_items (fr @ [PutText c cnt tx ty]) x1 y1 (y_off + 20) items))"

fun annotate_zone_totals :: "frame \<Rightarrow> zone list \<Rightarrow> counts list \<Rightarrow> error + frame" where
  "annotate_zone_totals fr [] zcs = Inr fr"
| "annotate_zone_totals fr (z # zs) zcs =
     (case unpack4 (zone_keys z) of
        Inl e \<Rightarrow> Inl e
      | Inr (x1, y1, x2, y2) \<Rightarrow>
          (case zcs of
             [] \<Rightarrow> Inl IndexError
           | zc # zcs' \<Rightarrow>
               (case annotate_items fr x1 y1 20 zc of
                  Inl e \<Rightarrow> Inl e
                | Inr fr' \<Rightarrow> annotate_zone_totals fr' zs zcs')))"

text \<open>The value returned: \<^verbatim>\<open>frame, zone_counts, class_counts, total\<close>.\<close>

record frame_result =
  out_frame :: frame
  zone_counts_frame :: "counts list"
  class_counts_frame :: counts
  total_frame :: nat

definition process_frame_counts :: "frame \<Rightarrow> zone list \<Rightarrow> detection list \<Rightarrow> error + frame_result" where
  "process_frame_counts fr zones dets =
     (let st = detect_loop fr zones dets in
      case annotate_zone_totals (frame st) zones (zone_counts st) of
        Inl e \<Rightarrow> Inl e
      | Inr fr' \<Rightarrow>
          Inr \<lparr> out_frame = fr',
                zone_counts_frame = zone_counts st,
                class_counts_frame = class_counts st,
                total_frame = sum_values (class_counts st) \<rparr>)"

subsection \<open>main: normalising the zone file\<close>

text \<open>
  \<^verbatim>\<open>int(v)\<close> on a value of the zone file. A string is parsed as Python parses a decimal
  literal: surrounding whitespace is dropped, one sign may lead, and single underscores
  may separate digits. Strings are byte strings here, so only the ASCII whitespace
  (tab, line feed, vertical tab, form feed, carriage return, space) and the ASCII digits
  are recognised.
\<close>

definition is_space :: "char \<Rightarrow> bool" where
  "is_space c = (let n = (of_char c :: nat) in (9 \<le> n \<and> n \<le> 13) \<or> n = 32)"

definition is_digit :: "char \<Rightarrow> bool" where
  "is_digit c = (let n = (of_char c :: nat) in 48 \<le> n \<and> n \<le> 57)"

definition digit_val :: "char \<Rightarrow> nat" where
  "digit_val c = of_char c - 48"

definition strip :: "string \<Rightarrow> string" where
  "strip s = rev (dropWhile is_space (rev (dropWhile is_space s)))"

fun digits_val :: "nat \<Rightarrow> string \<Rightarrow> nat option" where
  "digits_val acc [] = Some acc"
| "digits_val acc [c] = (if is_digit c then Some (10 * acc + digit_val c) else None)"
| "digits_val acc (c # d # r) =
     (if is_digit c then digits_val (10 * acc + digit_val c) (d # r)
      else if c = CHR ''_'' \<and> is_digit d then digits_val (10 * acc + digit_val d) r
      else None)"

definition unsigned_of_str :: "string \<Rightarrow> nat option" where
  "unsigned_of_str s =
     (case s of [] \<Rightarrow> None
      | c # r \<Rightarrow> if is_digit c then digits_val (digit_val c) r else None)"

definition int_of_str :: "string \<Rightarrow> int option" where
  "int_of_str s =
     (case strip s of
        [] \<Rightarrow> None
      | c # r \<Rightarrow>
          if c = CHR ''-'' then map_option (\<lambda>n. - int n) (unsigned_of_str r)
          else if c = CHR ''+'' then map_option int (unsigned_of_str r)
          else map_option int (unsigned_of_str (c # r)))"

fun py_int :: "json \<Rightarrow> error + int" where
  "py_int JNull = Inl TypeError"
| "py_int (JBool b) = Inr (if b then 1 else 0)"
| "py_int (JInt n) = Inr n"
| "py_int (JStr s) = (case int_of_str s of None \<Rightarrow> Inl ValueError | Some n \<Rightarrow> Inr n)"
| "py_int (JList _) = Inl TypeError"
| "py_int (JDict _) = Inl TypeError"

text \<open>\<^verbatim>\<open>bool(v)\<close>\<close>

fun py_bool :: "json \<Rightarrow> bool" where
  "py_bool JNull = False"
| "py_bool (JBool b) = b"
| "py_bool (JInt n) = (n \<noteq> 0)"
| "py_bool (JStr s) = (s \<noteq> [])"
| "py_bool (JList xs) = (xs \<noteq> [])"
| "py_bool (JDict kvs) = (kvs \<noteq> [])"

text \<open>\<^verbatim>\<open>z.get(k, dflt)\<close> on a dict of the zone file.\<close>

definition json_get :: "(string \<times> json) list \<Rightarrow> string \<Rightarrow> json \<Rightarrow> json" where
  "json_get kvs k dflt = (case map_of kvs k of None \<Rightarrow> dflt | Some v \<Rightarrow> v)"

text \<open>
  \<^verbatim>\<open>k in z and isinstance(z[k], (list, tuple)) and len(z[k]) > 2\<close>: the list under the
  key, when the test holds.
\<close>

definition long_list_at :: "(string \<times> json) list \<Rightarrow> string \<Rightarrow> json option" where
  "long_list_at kvs k =
     (case map_of kvs k of
        Some (JList ps) \<Rightarrow> if length ps > 2 then Some (JList ps) else None
      | _ \<Rightarrow> None)"

text \<open>
  The body of the normalisation loop for one record. \<^verbatim>\<open>np.array(v, dtype=np.int32)\<close> is
  NumPy's, not code of the repository: it is the parameter \<open>np_array\<close>, which gives the
  array or the exception raised. The result is the zone appended, \<open>None\<close> when the
  record is passed over, or the exception that leaves the loop. Only the raw-sequence
  polygon branch is inside a \<^verbatim>\<open>try\<close>.
\<close>

definition rect_of_dict :: "(string \<times> json) list \<Rightarrow> json \<Rightarrow> bool \<Rightarrow> error + zone" where
  "rect_of_dict kvs nm sel =
     (case py_int (json_get kvs ''x'' (JInt 0)) of Inl e \<Rightarrow> Inl e | Inr x \<Rightarrow>
      case py_int (json_get kvs ''y'' (JInt 0)) of Inl e \<Rightarrow> Inl e | Inr y \<Rightarrow>
      case py_int (json_get kvs ''w'' (JInt 0)) of Inl e \<Rightarrow> Inl e | Inr w \<Rightarrow>
      case py_int (json_get kvs ''h'' (JInt 0)) of Inl e \<Rightarrow> Inl e | Inr h \<Rightarrow>
        Inr (Rect (x, y, x + w, y + h) nm sel))"

definition rect_of_list :: "json \<Rightarrow> json \<Rightarrow> json \<Rightarrow> json \<Rightarrow> error + zone" where
  "rect_of_list z0 z1 z2 z3 =
     (case py_int z0 of Inl e \<Rightarrow> Inl e | Inr x1 \<Rightarrow>
      case py_int z1 of Inl e \<Rightarrow> Inl e | Inr y1 \<Rightarrow>
      case py_int z2 of Inl e \<Rightarrow> Inl e | Inr x2 \<Rightarrow>
      case py_int z3 of Inl e \<Rightarrow> Inl e | Inr y2 \<Rightarrow>
        Inr (Rect (x1, y1, x2, y2) (JStr []) True))"

text \<open>\<^verbatim>\<open>pts.shape[0] > 2 and pts.shape[1] >= 2\<close>\<close>

fun shape_test :: "nat list \<Rightarrow> error + bool" where
  "shape_test [] = Inl IndexError"
| "shape_test [n] = (if n > 2 then Inl IndexError else Inr False)"
| "shape_test (n # m # _) = Inr (n > 2 \<and> m \<ge> 2)"

definition poly_of_list :: "(json \<Rightarrow> error + ndarray) \<Rightarrow> json list \<Rightarrow> zone option" where
  "poly_of_list np_array z =
     (case np_array (JList z) of
        Inl _ \<Rightarrow> None
      | Inr a \<Rightarrow>
          (case shape_test (shape a) of
             Inl _ \<Rightarrow> None
           | Inr ok \<Rightarrow> if ok then Some (Poly a (JStr []) True) else None))"

fun normalize_zone :: "(json \<Rightarrow> error + ndarray) \<Rightarrow> json \<Rightarrow> error + zone option" where
  "normalize_zone np_array (JDict kvs) =
     (let nm = json_get kvs ''name'' (JStr []);
          sel = json_get kvs ''selected'' (JBool True);
          src = (case long_list_at kvs ''points'' of
                   Some v \<Rightarrow> Some v
                 | None \<Rightarrow> long_list_at kvs ''pts'')
      in case src of
           Some v \<Rightarrow>
             (case np_array v of
                Inl e \<Rightarrow> Inl e
              | Inr a \<Rightarrow> Inr (Some (Poly a nm (py_bool sel))))
         | None \<Rightarrow>
             (case rect_of_dict kvs nm (py_bool sel) of
                Inl e \<Rightarrow> Inl e
              | Inr r \<Rightarrow> Inr (Some r)))"
| "normalize_zone np_array (JList (z0 # z1 # z2 # z3 # r)) =
     (case rect_of_list z0 z1 z2 z3 of Inl e \<Rightarrow> Inl e | Inr r \<Rightarrow> Inr (Some r))"
| "normalize_zone np_array (JList [z0, z1, z2]) = Inr (poly_of_list np_array [z0, z1, z2])"
| "normalize_zone np_array _ = Inr None"

text \<open>The loop over the zone file: \<^verbatim>\<open>normalized_zones\<close>, or the exception that ends the run.\<close>

fun normalize_zones :: "(json \<Rightarrow> error + ndarray) \<Rightarrow> zone list \<Rightarrow> json list \<Rightarrow> error + zone list" where
  "normalize_zones np_array normalized_zones [] = Inr normalized_zones"
| "normalize_zones np_array normalized_zones (z # zs) =
     (case normalize_zone np_array z of
        Inl e \<Rightarrow> Inl e
      | Inr None \<Rightarrow> normalize_zones np_array normalized_zones zs
      | Inr (Some nz) \<Rightarrow> normalize_zones np_array (normalized_zones @ [nz]) zs)"

subsection \<open>main: the video branch\<close>

text \<open>
  The names the video branch keeps while it runs: the running counts, the frames given
  to \<^verbatim>\<open>writer.write\<close>, and whether \<^verbatim>\<open>cap.release()\<close> and \<^verbatim>\<open>writer.release()\<close> have been
  called. \<^verbatim>\<open>overall_class_counts\<close> is created inside the loop, on the first frame; until
  then the name is not bound (\<open>None\<close>).
\<close>

record video_state =
  cumulative_zone_counts :: "counts list"
  cumulative_total :: nat
  overall_class_counts :: "counts option"
  written :: "frame list"
  cap_released :: bool
  writer_released :: bool

text \<open>\<^verbatim>\<open>for cls, cnt in fr.items(): cum[cls] = cum.get(cls, 0) + cnt\<close>\<close>

definition merge_counts :: "counts \<Rightarrow> counts \<Rightarrow> counts" where
  "merge_counts cum fr = foldl (\<lambda>d (k, n). dict_add d k n) cum fr"

text \<open>The loop body after \<^verbatim>\<open>process_frame_counts\<close> has returned (lines 229 to 245).\<close>

definition accumulate :: "zone list \<Rightarrow> video_state \<Rightarrow> frame_result \<Rightarrow> video_state" where
  "accumulate selected_zones st r =
     st \<lparr> cumulative_total := cumulative_total st + total_frame r,
          cumulative_zone_counts :=
            map (\<lambda>i. merge_counts (cumulative_zone_counts st ! i)
                       (if i < length (zone_counts_frame r) then zone_counts_frame r ! i else []))
                [0 ..< length selected_zones],
          overall_class_counts :=
            Some (merge_counts (case overall_class_counts st of None \<Rightarrow> [] | Some d \<Rightarrow> d)
                               (class_counts_frame r)),
          written := written st @ [out_frame r] \<rparr>"

text \<open>
  The \<^verbatim>\<open>while True\<close> loop. A video is the list of the frames that \<^verbatim>\<open>cap.read()\<close> delivers
  before it reports no frame (end of stream or a failed read: the code cannot tell them
  apart), each frame given by its detections. An exception of \<^verbatim>\<open>process_frame_counts\<close>
  is not caught anywhere in \<^verbatim>\<open>main\<close>: it ends the loop and the run at once.
\<close>

fun video_loop :: "zone list \<Rightarrow> video_state \<Rightarrow> detection list list \<Rightarrow> error option \<times> video_state" where
  "video_loop selected_zones st [] = (None, st)"
| "video_loop selected_zones st (dets # rest) =
     (case process_frame_counts [] selected_zones dets of
        Inl e \<Rightarrow> (Some e, st)
      | Inr r \<Rightarrow> video_loop selected_zones (accumulate selected_zones st r) rest)"

text \<open>The JSON object printed at the end of a run (without the output path).\<close>

record run_result =
  success :: bool
  zones_meta :: "(json \<times> counts) list"
  result_class_counts :: counts
  result_total :: nat

text \<open>
  The video branch from a capture that opened (lines 219 to 255): what the run prints,
  or the exception that ended it, and the final state of the branch.
\<close>

definition main_video :: "zone list \<Rightarrow> detection list list \<Rightarrow> (error + run_result) \<times> video_state" where
  "main_video normalized_zones video =
     (let selected_zones = filter selected normalized_zones;
          st0 = \<lparr> cumulative_zone_counts = replicate (length selected_zones) [],
                  cumulative_total = 0,
                  overall_class_counts = None,
                  written = [],
                  cap_released = False,
                  writer_released = False \<rparr>
      in case video_loop selected_zones st0 video of
           (Some e, st) \<Rightarrow> (Inl e, st)
         | (None, st) \<Rightarrow>
             (let st' = st \<lparr> cap_released := True, writer_released := True \<rparr>;
                  meta = map (\<lambda>(idx, z).
                            (zname z,
                             if idx < length (cumulative_zone_counts st')
                             then cumulative_zone_counts st' ! idx else []))
                          (enumerate 0 selected_zones)
              in (Inr \<lparr> success = True,
                        zones_meta = meta,
                        result_class_counts =
                          (case overall_class_counts st' of None \<Rightarrow> [] | Some d \<Rightarrow> d),
                        result_total = cumulative_total st' \<rparr>, st')))"

section \<open>Properties\<close>

subsection \<open>Dictionaries\<close>

lemma map_of_dict_set: "map_of (dict_set d k v) = (map_of d)(k \<mapsto> v)"
  by (induction d) (auto simp: fun_eq_iff)

lemma dict_get_dict_set: "dict_get (dict_set d k v) k' = (if k' = k then v else dict_get d k')"
  by (simp add: dict_get_def map_of_dict_set)

lemma dict_get_dict_add:
  "dict_get (dict_add d k n) k' = (if k' = k then dict_get d k + n else dict_get d k')"
  by (simp add: dict_add_def dict_get_dict_set)

lemma map_of_dict_add: "map_of (dict_add d k n) = (map_of d)(k \<mapsto> dict_get d k + n)"
  by (simp add: dict_add_def map_of_dict_set)

lemma sum_values_dict_set: "sum_values (dict_set d k v) + dict_get d k = sum_values d + v"
  by (induction d) (auto simp: sum_values_def dict_get_def)

lemma sum_values_dict_add: "sum_values (dict_add d k n) = sum_values d + n"
  using sum_values_dict_set [of d k "dict_get d k + n"] by (simp add: dict_add_def)

lemma dict_get_Nil [simp]: "dict_get [] c = 0"
  by (simp add: dict_get_def)

lemma sum_values_Nil [simp]: "sum_values [] = 0"
  by (simp add: sum_values_def)

lemma dict_get_absent: "k \<notin> fst ` set d \<Longrightarrow> dict_get d k = 0"
  by (simp add: dict_get_def map_of_eq_None_iff [THEN iffD2])

subsection \<open>The detection loop\<close>

lemma class_counts_step [simp]:
  "class_counts (detect_step zones st d) = dict_add (class_counts st) (cls_name d) 1"
  by (simp add: detect_step_def Let_def split: prod.splits)

lemma zone_counts_step [simp]:
  "zone_counts (detect_step zones st d) = assign_zones zones (zone_counts st) (cls_name d) (center d)"
  by (simp add: detect_step_def Let_def split: prod.splits)

lemma det_index_step [simp]:
  "det_index (detect_step zones st d) = det_index st + 1"
  by (simp add: detect_step_def Let_def split: prod.splits)

lemma class_counts_foldl:
  "dict_get (class_counts (foldl (detect_step zones) st dets)) c =
     dict_get (class_counts st) c + length (filter (\<lambda>d. cls_name d = c) dets)"
  by (induction dets arbitrary: st) (auto simp: dict_get_dict_add)

lemma class_counts_foldl_zones:
  "class_counts (foldl (detect_step zones) st dets) =
   class_counts (foldl (detect_step zones') st' dets)" if "class_counts st = class_counts st'"
  using that by (induction dets arbitrary: st st') auto

lemma sum_values_foldl:
  "sum_values (class_counts (foldl (detect_step zones) st dets)) =
     sum_values (class_counts st) + length dets"
  by (induction dets arbitrary: st) (auto simp: sum_values_dict_add)

lemma map_of_class_counts_foldl:
  "map_of (class_counts (foldl (detect_step zones) st dets)) c =
     (if c \<in> cls_name ` set dets
      then Some (dict_get (class_counts st) c + length (filter (\<lambda>d. cls_name d = c) dets))
      else map_of (class_counts st) c)"
proof (induction dets arbitrary: st)
  case Nil
  then show ?case by simp
next
  case (Cons d dets)
  show ?case
    by (auto simp: Cons.IH dict_get_dict_add map_of_dict_add dict_get_def filter_empty_conv image_iff)
qed

lemma length_assign_zones [simp]:
  "length (assign_zones zones zcs c p) = min (length zones) (length zcs)"
  by (simp add: assign_zones_def)

lemma nth_assign_zones:
  "i < length zones \<Longrightarrow> i < length zcs \<Longrightarrow>
   assign_zones zones zcs c p ! i = (if zone_hit (zones ! i) p then dict_add (zcs ! i) c 1 else zcs ! i)"
  by (simp add: assign_zones_def)

lemma length_zone_counts_foldl:
  "length (zone_counts st) = length zones \<Longrightarrow>
   length (zone_counts (foldl (detect_step zones) st dets)) = length zones"
  by (induction dets arbitrary: st) auto

lemma zone_counts_foldl:
  "length (zone_counts st) = length zones \<Longrightarrow> i < length zones \<Longrightarrow>
   dict_get (zone_counts (foldl (detect_step zones) st dets) ! i) c =
     dict_get (zone_counts st ! i) c
       + length (filter (\<lambda>d. cls_name d = c \<and> zone_hit (zones ! i) (center d)) dets)"
  by (induction dets arbitrary: st) (auto simp: nth_assign_zones dict_get_dict_add)

lemma map_of_zone_counts_foldl:
  "length (zone_counts st) = length zones \<Longrightarrow> i < length zones \<Longrightarrow>
   map_of (zone_counts (foldl (detect_step zones) st dets) ! i) c =
     (if \<exists>d \<in> set dets. cls_name d = c \<and> zone_hit (zones ! i) (center d)
      then Some (dict_get (zone_counts st ! i) c
          + length (filter (\<lambda>d. cls_name d = c \<and> zone_hit (zones ! i) (center d)) dets))
      else map_of (zone_counts st ! i) c)"
proof (induction dets arbitrary: st)
  case Nil
  then show ?case by simp
next
  case (Cons d dets)
  then show ?case
    by (auto simp: nth_assign_zones dict_get_dict_add map_of_dict_add dict_get_def filter_empty_conv)
qed

lemma length_zone_counts_loop [simp]: "length (zone_counts (detect_loop fr zones dets)) = length zones"
  by (simp add: detect_loop_def init_state_def length_zone_counts_foldl)

lemma loop_class_get:
  "dict_get (class_counts (detect_loop fr zones dets)) c = length (filter (\<lambda>d. cls_name d = c) dets)"
  by (simp add: detect_loop_def class_counts_foldl init_state_def)

lemma loop_class_map_of:
  "map_of (class_counts (detect_loop fr zones dets)) c =
     (if c \<in> cls_name ` set dets then Some (length (filter (\<lambda>d. cls_name d = c) dets)) else None)"
  by (simp add: detect_loop_def map_of_class_counts_foldl init_state_def)

lemma loop_class_zones:
  "class_counts (detect_loop fr zones dets) = class_counts (detect_loop fr' zones' dets)"
  unfolding detect_loop_def
  by (rule class_counts_foldl_zones) (simp add: init_state_def)

lemma loop_sum_values: "sum_values (class_counts (detect_loop fr zones dets)) = length dets"
  by (simp add: detect_loop_def sum_values_foldl init_state_def)

lemma loop_zone_get:
  "i < length zones \<Longrightarrow>
   dict_get (zone_counts (detect_loop fr zones dets) ! i) c =
     length (filter (\<lambda>d. cls_name d = c \<and> zone_hit (zones ! i) (center d)) dets)"
  by (simp add: detect_loop_def zone_counts_foldl init_state_def)

lemma loop_zone_map_of:
  "i < length zones \<Longrightarrow>
   map_of (zone_counts (detect_loop fr zones dets) ! i) c =
     (if \<exists>d \<in> set dets. cls_name d = c \<and> zone_hit (zones ! i) (center d)
      then Some (length (filter (\<lambda>d. cls_name d = c \<and> zone_hit (zones ! i) (center d)) dets))
      else None)"
  by (simp add: detect_loop_def map_of_zone_counts_foldl init_state_def)

lemma loop_zone_empty:
  "i < length zones \<Longrightarrow>
   (zone_counts (detect_loop fr zones dets) ! i = []) =
     (\<forall>d \<in> set dets. \<not> zone_hit (zones ! i) (center d))"
proof -
  assume i: "i < length zones"
  let ?zc = "zone_counts (detect_loop fr zones dets) ! i"
  have "(?zc = []) = (\<forall>c. map_of ?zc c = None)"
    by (cases ?zc) (auto simp: fun_eq_iff)
  also have "\<dots> = (\<forall>d \<in> set dets. \<not> zone_hit (zones ! i) (center d))"
    by (auto simp: loop_zone_map_of [OF i])
  finally show ?thesis .
qed

lemma ex_car_center [simp]:
  "center \<lparr>cls_name = c, xyxy = (4, 4, 6, 6)\<rparr> = (5, 5)"
  "center \<lparr>cls_name = c, xyxy = (8, 3, 12, 7)\<rparr> = (10, 5)"
  "center \<lparr>cls_name = c, xyxy = (20, 20, 30, 30)\<rparr> = (25, 25)"
  "center \<lparr>cls_name = c, xyxy = (3, - 2, 7, 2)\<rparr> = (5, 0)"
  by (simp_all add: center_def int_half_def)

subsection \<open>The annotation of zone totals\<close>

text \<open>
  For the zones that \<^verbatim>\<open>main\<close> builds the unpacking always succeeds, and the loop raises
  TypeError exactly when some zone's count dict is not empty.
\<close>

lemma unpack4_zone_keys: "\<exists>a b c d. unpack4 (zone_keys z) = Inr (a, b, c, d)"
  by (cases z) simp_all

lemma annotate_items_eq:
  "annotate_items fr x1 y1 y_off items = (if items = [] then Inr fr else Inl TypeError)"
  by (cases items) (auto simp: str_plus_int_def)

lemma annotate_zone_totals_eq:
  "length zcs = length zones \<Longrightarrow>
   annotate_zone_totals fr zones zcs = (if list_all (\<lambda>zc. zc = []) zcs then Inr fr else Inl TypeError)"
proof (induction zones arbitrary: zcs fr)
  case Nil
  then show ?case by simp
next
  case (Cons z zones)
  then obtain zc zcs' where zcs: "zcs = zc # zcs'" by (cases zcs) auto
  obtain a b c d where u: "unpack4 (zone_keys z) = Inr (a, b, c, d)"
    using unpack4_zone_keys by blast
  show ?case using Cons zcs u
    by (simp add: annotate_items_eq)
qed

text \<open>
  So \<^verbatim>\<open>process_frame_counts\<close> returns exactly for the frames in which no detection falls
  in any zone, and raises TypeError for all others.
\<close>

lemma process_frame_counts_eq:
  "process_frame_counts fr zones dets =
     (if \<exists>z \<in> set zones. \<exists>d \<in> set dets. zone_hit z (center d) then Inl TypeError
      else Inr \<lparr> out_frame = frame (detect_loop fr zones dets),
                 zone_counts_frame = zone_counts (detect_loop fr zones dets),
                 class_counts_frame = class_counts (detect_loop fr zones dets),
                 total_frame = length dets \<rparr>)"
proof -
  let ?st = "detect_loop fr zones dets"
  have "list_all (\<lambda>zc. zc = []) (zone_counts ?st) =
        (\<forall>i < length zones. zone_counts ?st ! i = [])"
    by (simp add: list_all_length)
  also have "\<dots> = (\<forall>i < length zones. \<forall>d \<in> set dets. \<not> zone_hit (zones ! i) (center d))"
    by (simp add: loop_zone_empty)
  also have "\<dots> = (\<not> (\<exists>z \<in> set zones. \<exists>d \<in> set dets. zone_hit z (center d)))"
    by (metis in_set_conv_nth nth_mem)
  finally have *: "list_all (\<lambda>zc. zc = []) (zone_counts ?st) =
      (\<not> (\<exists>z \<in> set zones. \<exists>d \<in> set dets. zone_hit z (center d)))" .
  show ?thesis
    unfolding process_frame_counts_def Let_def
    by (simp add: annotate_zone_totals_eq * loop_sum_values)
qed

text \<open>
  \<^verbatim>\<open>draw_zones_on_frame\<close>, by contrast, passes over a polygon it cannot draw.
\<close>

lemma draw_zones_on_frame_skips:
  "contour a = Inl e \<Longrightarrow>
   draw_zones_on_frame fr (Poly a nm sel # zs) = draw_zones_on_frame fr zs"
  by simp

subsection \<open>Global counts\<close>

text \<open>
  In the state that the detection loop builds, the count of a class is the number of
  detections of that class, the class counts are the same whatever the zones are, and
  their sum is the number of detections.
\<close>

lemma loop_global_counts:
  "dict_get (class_counts (detect_loop fr zones dets)) c = length (filter (\<lambda>d. cls_name d = c) dets)
   \<and> class_counts (detect_loop fr zones dets) = class_counts (detect_loop fr [] dets)
   \<and> sum_values (class_counts (detect_loop fr zones dets)) = length dets"
  using loop_class_zones [of fr zones dets fr "[]"]
  by (simp add: loop_class_get loop_sum_values)

text \<open>
  Claim C1 says that the global counts and the frame total that aggregation produces do
  not depend on how many zones a detection falls in. With the zones A, the rect
  \<open>(0, 0, 10, 10)\<close>, and B, the rect \<open>(5, 5, 15, 15)\<close>, a car with centre \<open>(7, 7)\<close> inside
  both and a person outside both, the detection loop does count the car and the person
  once each, but \<^verbatim>\<open>process_frame_counts\<close> then raises TypeError while it annotates the
  zone totals: the total is never computed and no counts are returned. With no zones the
  same detections give the counts and the total 2.
\<close>

theorem global_counts_lost_on_zone_hit:
  "class_counts (detect_loop []
       [Rect (0, 0, 10, 10) (JStr ''A'') True, Rect (5, 5, 15, 15) (JStr ''B'') True]
       [\<lparr>cls_name = ''car'', xyxy = (6, 6, 8, 8)\<rparr>,
        \<lparr>cls_name = ''person'', xyxy = (20, 20, 30, 30)\<rparr>])
     = [(''car'', 1), (''person'', 1)]
   \<and> process_frame_counts []
       [Rect (0, 0, 10, 10) (JStr ''A'') True, Rect (5, 5, 15, 15) (JStr ''B'') True]
       [\<lparr>cls_name = ''car'', xyxy = (6, 6, 8, 8)\<rparr>,
        \<lparr>cls_name = ''person'', xyxy = (20, 20, 30, 30)\<rparr>]
     = Inl TypeError
   \<and> map_sum id (\<lambda>r. (class_counts_frame r, total_frame r))
       (process_frame_counts [] []
         [\<lparr>cls_name = ''car'', xyxy = (6, 6, 8, 8)\<rparr>,
          \<lparr>cls_name = ''person'', xyxy = (20, 20, 30, 30)\<rparr>])
     = Inr ([(''car'', 1), (''person'', 1)], 2)"
proof -
  have c: "center \<lparr>cls_name = ''car'', xyxy = (6, 6, 8, 8)\<rparr> = (7, 7)"
    by (simp add: center_def int_half_def)
  have 1: "class_counts (detect_loop [] zs
       [\<lparr>cls_name = ''car'', xyxy = (6, 6, 8, 8)\<rparr>,
        \<lparr>cls_name = ''person'', xyxy = (20, 20, 30, 30)\<rparr>])
     = [(''car'', 1), (''person'', 1)]" for zs
    by (simp add: detect_loop_def init_state_def dict_add_def dict_get_def)
  show ?thesis
    by (simp add: 1 process_frame_counts_eq c)
qed

subsection \<open>Zone membership\<close>

text \<open>
  Claim C2. A reference point \<open>(cx, cy)\<close> counts for a rect zone with corners
  \<open>(x1, y1, x2, y2)\<close> exactly when \<open>min x1 x2 < cx < max x1 x2\<close> and
  \<open>min y1 y2 < cy < max y1 y2\<close>; after the detection loop the zone's count for a class is
  the number of detections of that class whose centre is strictly inside. The centre
  \<open>(10, 5)\<close> on the edge of the rect \<open>(0, 0, 10, 10)\<close> does not count.
\<close>

theorem rect_strict_interior:
  "zone_hit (Rect (x1, y1, x2, y2) nm sel) (cx, cy) =
     (min x1 x2 < cx \<and> cx < max x1 x2 \<and> min y1 y2 < cy \<and> cy < max y1 y2)
   \<and> (i < length zones \<and> zones ! i = Rect (x1, y1, x2, y2) nm sel \<longrightarrow>
        dict_get (zone_counts (detect_loop fr zones dets) ! i) c =
          length (filter (\<lambda>d. cls_name d = c \<and>
             (case center d of (cx, cy) \<Rightarrow>
                min x1 x2 < cx \<and> cx < max x1 x2 \<and> min y1 y2 < cy \<and> cy < max y1 y2)) dets))"
proof -
  have "zone_hit (Rect (x1, y1, x2, y2) nm sel) p =
     (case p of (cx, cy) \<Rightarrow> min x1 x2 < cx \<and> cx < max x1 x2 \<and> min y1 y2 < cy \<and> cy < max y1 y2)" for p
    by (cases p) simp
  then show ?thesis
    by (simp add: loop_zone_get)
qed

theorem rect_strict_interior_witness:
  "\<not> zone_hit (Rect (0, 0, 10, 10) (JStr ''A'') True) (10, 5)
   \<and> dict_get (zone_counts (detect_loop [] [Rect (0, 0, 10, 10) (JStr ''A'') True]
        [\<lparr>cls_name = ''car'', xyxy = (8, 3, 12, 7)\<rparr>]) ! 0) ''car'' = 0"
  using rect_strict_interior [of 0 0 10 10 "JStr ''A''" True 10 5 0
          "[Rect (0, 0, 10, 10) (JStr ''A'') True]" "[]"
          "[\<lparr>cls_name = ''car'', xyxy = (8, 3, 12, 7)\<rparr>]" "''car''"]
  by simp

lemma triangle_contour:
  "contour (NdArray [3, 2] [0, 0, 10, 0, 0, 10]) = Inr [(0, 0), (10, 0), (0, 10)]"
  by (simp add: contour_def)

lemma triangle_edge_point: "on_boundary [(0, 0), (10, 0), (0, 10)] (5, 0)"
  by (simp add: on_boundary_def edges_def)

text \<open>
  Claim C3. For a polygon zone whose array is a contour, a reference point counts exactly
  when the crossing-number test puts it inside or it lies on the boundary (the test value
  is then \<open>\<ge> 0\<close>): boundary points are members. After the detection loop the zone's count
  for a class is the number of detections of that class whose centre passes the test. The
  centre \<open>(5, 0)\<close> on an edge of the triangle \<open>(0,0)\<close>, \<open>(10,0)\<close>, \<open>(0,10)\<close> raises the
  zone's count to 1.
\<close>

theorem polygon_boundary_inclusive:
  "contour a = Inr ps \<Longrightarrow>
     zone_hit (Poly a nm sel) p = (on_boundary ps p \<or> odd (crossing_number ps p))
   \<and> (on_boundary ps p \<longrightarrow> zone_hit (Poly a nm sel) p)
   \<and> (i < length zones \<and> zones ! i = Poly a nm sel \<longrightarrow>
        dict_get (zone_counts (detect_loop fr zones dets) ! i) c =
          length (filter (\<lambda>d. cls_name d = c \<and>
             (on_boundary ps (center d) \<or> odd (crossing_number ps (center d)))) dets))"
proof -
  assume a: "contour a = Inr ps"
  have h: "zone_hit (Poly a nm sel) q = (on_boundary ps q \<or> odd (crossing_number ps q))" for q
    using a by (cases q) (simp add: pointPolygonTest_def)
  show ?thesis
    by (simp add: h loop_zone_get)
qed

theorem polygon_boundary_inclusive_witness:
  "contour (NdArray [3, 2] [0, 0, 10, 0, 0, 10]) = Inr [(0, 0), (10, 0), (0, 10)]
   \<and> on_boundary [(0, 0), (10, 0), (0, 10)] (5, 0)
   \<and> zone_hit (Poly (NdArray [3, 2] [0, 0, 10, 0, 0, 10]) (JStr '''') True) (5, 0)
   \<and> dict_get (zone_counts (detect_loop [] [Poly (NdArray [3, 2] [0, 0, 10, 0, 0, 10]) (JStr '''') True]
        [\<lparr>cls_name = ''car'', xyxy = (3, - 2, 7, 2)\<rparr>]) ! 0) ''car'' = 1"
  using polygon_boundary_inclusive [OF triangle_contour, of "JStr ''''" True "(5, 0)" 0
          "[Poly (NdArray [3, 2] [0, 0, 10, 0, 0, 10]) (JStr '''') True]" "[]"
          "[\<lparr>cls_name = ''car'', xyxy = (3, - 2, 7, 2)\<rparr>]" "''car''"]
    triangle_contour triangle_edge_point
  by simp

subsection \<open>Annotation errors\<close>

text \<open>
  Claim C4 says that an error while one zone's annotations are rendered is caught and the
  frame still completes. \<^verbatim>\<open>draw_zones_on_frame\<close> does that, the loop that writes the zone
  totals does not: as soon as one detection falls in one zone, \<^verbatim>\<open>process_frame_counts\<close>
  raises TypeError and returns no counts.
\<close>

theorem zone_total_annotation_raises:
  "z \<in> set zones \<Longrightarrow> d \<in> set dets \<Longrightarrow> zone_hit z (center d) \<Longrightarrow>
   process_frame_counts fr zones dets = Inl TypeError"
  by (auto simp: process_frame_counts_eq)

theorem zone_total_annotation_raises_witness:
  "zone_hit (Rect (0, 0, 10, 10) (JStr ''A'') True) (center \<lparr>cls_name = ''car'', xyxy = (4, 4, 6, 6)\<rparr>)
   \<and> process_frame_counts [] [Rect (0, 0, 10, 10) (JStr ''A'') True]
        [\<lparr>cls_name = ''car'', xyxy = (4, 4, 6, 6)\<rparr>] = Inl TypeError"
proof -
  have h: "zone_hit (Rect (0, 0, 10, 10) (JStr ''A'') True) (center \<lparr>cls_name = ''car'', xyxy = (4, 4, 6, 6)\<rparr>)"
    by simp
  from zone_total_annotation_raises [OF _ _ h, of "[Rect (0, 0, 10, 10) (JStr ''A'') True]"
      "[\<lparr>cls_name = ''car'', xyxy = (4, 4, 6, 6)\<rparr>]" "[]"] h
  show ?thesis by simp
qed

subsection \<open>Order of the detections\<close>

text \<open>
  Claim C9. Permuting the detection list changes none of the counts: the class counts and
  every zone's counts are the same dicts (the same keys with the same values), the total is
  the same, and \<^verbatim>\<open>process_frame_counts\<close> raises for both orders or returns equal counts for
  both.
\<close>

theorem counts_invariant_under_permutation:
  "mset dets' = mset dets \<Longrightarrow>
     map_of (class_counts (detect_loop fr' zones dets')) = map_of (class_counts (detect_loop fr zones dets))
   \<and> (\<forall>i < length zones. map_of (zone_counts (detect_loop fr' zones dets') ! i)
                         = map_of (zone_counts (detect_loop fr zones dets) ! i))
   \<and> sum_values (class_counts (detect_loop fr' zones dets')) = sum_values (class_counts (detect_loop fr zones dets))
   \<and> rel_sum (=) (\<lambda>r' r. map_of (class_counts_frame r') = map_of (class_counts_frame r)
                   \<and> list_all2 (\<lambda>a b. map_of a = map_of b) (zone_counts_frame r') (zone_counts_frame r)
                   \<and> total_frame r' = total_frame r)
        (process_frame_counts fr' zones dets') (process_frame_counts fr zones dets)"
proof -
  assume p: "mset dets' = mset dets"
  have s: "set dets' = set dets" using p by (rule mset_eq_setD)
  have l: "length dets' = length dets" using p by (rule mset_eq_length)
  have f: "length (filter P dets') = length (filter P dets)" for P
  proof -
    have "mset (filter P dets') = mset (filter P dets)" using p by (simp add: mset_filter)
    then show ?thesis by (rule mset_eq_length)
  qed
  have cc: "map_of (class_counts (detect_loop fr' zones dets')) = map_of (class_counts (detect_loop fr zones dets))"
    by (rule ext) (simp add: loop_class_map_of s f)
  have zc: "map_of (zone_counts (detect_loop fr' zones dets') ! i)
            = map_of (zone_counts (detect_loop fr zones dets) ! i)" if "i < length zones" for i
    by (rule ext) (simp add: loop_zone_map_of that s f)
  have zl: "list_all2 (\<lambda>a b. map_of a = map_of b)
     (zone_counts (detect_loop fr' zones dets')) (zone_counts (detect_loop fr zones dets))"
    by (simp add: list_all2_conv_all_nth zc)
  show ?thesis
    by (simp add: cc zc zl loop_sum_values l process_frame_counts_eq s)
qed

theorem counts_invariant_under_permutation_witness:
  "class_counts (detect_loop [] [Rect (0, 0, 10, 10) (JStr ''A'') True]
        [\<lparr>cls_name = ''car'', xyxy = (4, 4, 6, 6)\<rparr>, \<lparr>cls_name = ''person'', xyxy = (20, 20, 30, 30)\<rparr>])
     = [(''car'', 1), (''person'', 1)]
   \<and> class_counts (detect_loop [] [Rect (0, 0, 10, 10) (JStr ''A'') True]
        [\<lparr>cls_name = ''person'', xyxy = (20, 20, 30, 30)\<rparr>, \<lparr>cls_name = ''car'', xyxy = (4, 4, 6, 6)\<rparr>])
     = [(''person'', 1), (''car'', 1)]
   \<and> map_of [(''person'', 1::nat), (''car'', 1)] = map_of [(''car'', 1), (''person'', 1)]"
proof -
  let ?zs = "[Rect (0, 0, 10, 10) (JStr ''A'') True]"
  let ?a = "\<lparr>cls_name = ''car'', xyxy = (4, 4, 6, 6)\<rparr>"
  let ?b = "\<lparr>cls_name = ''person'', xyxy = (20, 20, 30, 30)\<rparr>"
  have p: "mset [?b, ?a] = mset [?a, ?b]" by simp
  have 1: "class_counts (detect_loop [] ?zs [?a, ?b]) = [(''car'', 1), (''person'', 1)]"
    by (simp add: detect_loop_def init_state_def dict_add_def dict_get_def)
  have 2: "class_counts (detect_loop [] ?zs [?b, ?a]) = [(''person'', 1), (''car'', 1)]"
    by (simp add: detect_loop_def init_state_def dict_add_def dict_get_def)
  from counts_invariant_under_permutation [OF p, of "[]" ?zs "[]"]
  have "map_of (class_counts (detect_loop [] ?zs [?b, ?a])) = map_of (class_counts (detect_loop [] ?zs [?a, ?b]))"
    by (rule conjunct1)
  with 1 2 show ?thesis by simp
qed

subsection \<open>Zone counts against global counts\<close>

text \<open>
  Claim C10. For every zone and every class, the zone's count is at most the global count
  of the class, in the state the detection loop builds and in every result that
  \<^verbatim>\<open>process_frame_counts\<close> returns.
\<close>

theorem zone_count_le_global_count:
  "i < length zones \<Longrightarrow>
     dict_get (zone_counts (detect_loop fr zones dets) ! i) c
       \<le> dict_get (class_counts (detect_loop fr zones dets)) c
   \<and> (\<forall>r. process_frame_counts fr zones dets = Inr r \<longrightarrow>
          dict_get (zone_counts_frame r ! i) c \<le> dict_get (class_counts_frame r) c)"
proof -
  assume i: "i < length zones"
  have "length (filter (\<lambda>d. cls_name d = c \<and> zone_hit (zones ! i) (center d)) dets)
        \<le> length (filter (\<lambda>d. cls_name d = c) dets)"
    by (induction dets) auto
  then have 1: "dict_get (zone_counts (detect_loop fr zones dets) ! i) c
       \<le> dict_get (class_counts (detect_loop fr zones dets)) c"
    by (simp add: loop_zone_get [OF i] loop_class_get)
  then show ?thesis
    by (auto simp: process_frame_counts_eq split: if_splits)
qed

theorem zone_count_le_global_count_witness:
  "dict_get (zone_counts (detect_loop [] [Rect (0, 0, 10, 10) (JStr ''A'') True]
        [\<lparr>cls_name = ''car'', xyxy = (4, 4, 6, 6)\<rparr>, \<lparr>cls_name = ''car'', xyxy = (20, 20, 30, 30)\<rparr>]) ! 0) ''car'' = 1
   \<and> dict_get (class_counts (detect_loop [] [Rect (0, 0, 10, 10) (JStr ''A'') True]
        [\<lparr>cls_name = ''car'', xyxy = (4, 4, 6, 6)\<rparr>, \<lparr>cls_name = ''car'', xyxy = (20, 20, 30, 30)\<rparr>])) ''car'' = 2
   \<and> (\<exists>r. process_frame_counts [] [Rect (0, 0, 10, 10) (JStr ''A'') True]
             [\<lparr>cls_name = ''car'', xyxy = (20, 20, 30, 30)\<rparr>] = Inr r
          \<and> dict_get (zone_counts_frame r ! 0) ''car'' \<le> dict_get (class_counts_frame r) ''car'')"
proof -
  let ?zs = "[Rect (0, 0, 10, 10) (JStr ''A'') True]"
  let ?ds = "[\<lparr>cls_name = ''car'', xyxy = (4, 4, 6, 6)\<rparr>, \<lparr>cls_name = ''car'', xyxy = (20, 20, 30, 30)\<rparr>]"
  let ?es = "[\<lparr>cls_name = ''car'', xyxy = (20, 20, 30, 30)\<rparr>]"
  have i: "0 < length ?zs" by simp
  have 1: "dict_get (zone_counts (detect_loop [] ?zs ?ds) ! 0) ''car'' = 1"
    by (simp add: loop_zone_get)
  have 2: "dict_get (class_counts (detect_loop [] ?zs ?ds)) ''car'' = 2"
    by (simp add: loop_class_get)
  obtain r where r: "process_frame_counts [] ?zs ?es = Inr r"
    by (simp add: process_frame_counts_eq)
  from zone_count_le_global_count [OF i, of "[]" ?es "''car''"] r
  have 3: "dict_get (zone_counts_frame r ! 0) ''car'' \<le> dict_get (class_counts_frame r) ''car''"
    by blast
  from 1 2 3 r show ?thesis by blast
qed

subsection \<open>Normalising the zone file\<close>

text \<open>
  Records that are neither a dict nor a sequence of more than two elements are passed
  over, and so is a three-element sequence that NumPy rejects: the \<^verbatim>\<open>try\<close> around that
  branch catches the exception. A sequence of three points becomes a polygon.
\<close>

lemma non_record_dropped:
  "normalize_zones np_array [] [JList [JInt 0, JInt 0, JInt 10, JInt 10], JInt 5, JList [JInt 1, JInt 2]]
     = Inr [Rect (0, 0, 10, 10) (JStr []) True]"
  by (simp add: rect_of_list_def)

lemma raw_three_dropped_on_numpy_error:
  "np_array (JList [z0, z1, z2]) = Inl e \<Longrightarrow>
   normalize_zones np_array [] [JList [JInt 0, JInt 0, JInt 10, JInt 10], JList [z0, z1, z2]]
     = Inr [Rect (0, 0, 10, 10) (JStr []) True]"
  by (simp add: rect_of_list_def poly_of_list_def)

lemma raw_polygon_of_three_points:
  "np_array (JList [p0, p1, p2]) = Inr (NdArray [3, 2] xs) \<Longrightarrow>
   normalize_zone np_array (JList [p0, p1, p2]) = Inr (Some (Poly (NdArray [3, 2] xs) (JStr []) True))"
  by (simp add: poly_of_list_def)

text \<open>
  Claim C5 says that a record that cannot be coerced is dropped without error. The rect
  branches call \<^verbatim>\<open>int\<close> outside any \<^verbatim>\<open>try\<close>: with one valid record and one map record
  whose \<^verbatim>\<open>x\<close> is \<^verbatim>\<open>null\<close>, the normalisation raises TypeError and yields no zones.
\<close>

theorem malformed_rect_record_raises:
  "normalize_zones np_array []
     [JList [JInt 0, JInt 0, JInt 10, JInt 10],
      JDict [(''name'', JStr ''B''), (''x'', JNull)]] = Inl TypeError"
  by (simp add: rect_of_list_def rect_of_dict_def json_get_def long_list_at_def)

text \<open>
  Claim C6 says that a raw sequence of three or more points becomes a polygon. A raw
  sequence of four or more elements takes the rect branch, whatever its elements are, and
  \<^verbatim>\<open>int\<close> of the first point, a list, raises TypeError.
\<close>

theorem raw_polygon_of_four_points_raises:
  "normalize_zone np_array (JList (JList p0 # z1 # z2 # z3 # r)) = Inl TypeError"
  by (simp add: rect_of_list_def)

subsection \<open>The video branch\<close>

lemma merge_counts_Cons:
  "merge_counts cum ((k, n) # fr) = merge_counts (dict_add cum k n) fr"
  by (simp add: merge_counts_def)

lemma merge_counts_get:
  "distinct (map fst fr) \<Longrightarrow> dict_get (merge_counts cum fr) k = dict_get cum k + dict_get fr k"
proof (induction fr arbitrary: cum)
  case Nil
  then show ?case by (simp add: merge_counts_def)
next
  case (Cons p fr)
  obtain k' n where p: "p = (k', n)" by (cases p)
  from Cons.prems p have d: "distinct (map fst fr)" and nk: "k' \<notin> fst ` set fr" by auto
  have "dict_get (p # fr) k = (if k = k' then n else dict_get fr k)"
    by (simp add: p dict_get_def)
  with nk show ?case
    by (simp add: p merge_counts_Cons Cons.IH [OF d] dict_get_dict_add dict_get_absent)
qed

lemma accumulate_total [simp]:
  "cumulative_total (accumulate zs st r) = cumulative_total st + total_frame r"
  by (simp add: accumulate_def)

lemma accumulate_released [simp]:
  "cap_released (accumulate zs st r) = cap_released st"
  "writer_released (accumulate zs st r) = writer_released st"
  by (simp_all add: accumulate_def)

lemma accumulate_zone_get:
  "i < length zs \<Longrightarrow> i < length (zone_counts_frame r) \<Longrightarrow> distinct (map fst (zone_counts_frame r ! i)) \<Longrightarrow>
   dict_get (cumulative_zone_counts (accumulate zs st r) ! i) c =
     dict_get (cumulative_zone_counts st ! i) c + dict_get (zone_counts_frame r ! i) c"
  by (simp add: accumulate_def merge_counts_get)

lemma video_loop_released:
  "cap_released (snd (video_loop zs st video)) = cap_released st
   \<and> writer_released (snd (video_loop zs st video)) = writer_released st"
  by (induction video arbitrary: st) (auto split: sum.splits)

lemma video_loop_ends:
  "(fst (video_loop zs st video) = None) =
     (\<forall>dets \<in> set video. \<exists>r. process_frame_counts [] zs dets = Inr r)"
  by (induction video arbitrary: st) (auto split: sum.splits)

lemma video_loop_total:
  "fst (video_loop zs st video) = None \<Longrightarrow>
   cumulative_total (snd (video_loop zs st video)) = cumulative_total st + sum_list (map length video)"
proof (induction video arbitrary: st)
  case Nil
  then show ?case by simp
next
  case (Cons dets video)
  then show ?case
    by (auto simp: process_frame_counts_eq split: sum.splits if_splits)
qed

text \<open>
  Folding three frame results that each report one car in the zone gives the zone the
  count 3: the accumulation itself sums key by key.
\<close>

lemma accumulate_three_frames:
  "cumulative_zone_counts
     (foldl (accumulate [Rect (0, 0, 10, 10) (JStr ''A'') True])
        \<lparr> cumulative_zone_counts = [[]], cumulative_total = 0, overall_class_counts = None,
          written = [], cap_released = False, writer_released = False \<rparr>
        (replicate 3 \<lparr> out_frame = [], zone_counts_frame = [[(''car'', 1)]],
                        class_counts_frame = [(''car'', 1)], total_frame = 1 \<rparr>))
   = [[(''car'', 3)]]"
  by (simp add: numeral_3_eq_3 accumulate_def merge_counts_def dict_add_def dict_get_def)

text \<open>
  Claim C7 gives three frames that each report one car inside zone A and expects the
  cumulative count \<open>{car: 3}\<close> for the zone. On that video \<^verbatim>\<open>process_frame_counts\<close> raises
  TypeError on the first frame, nothing is accumulated and no result is printed.
\<close>

theorem video_zone_hit_ends_run:
  "main_video [Rect (0, 0, 10, 10) (JStr ''A'') True]
     [[\<lparr>cls_name = ''car'', xyxy = (4, 4, 6, 6)\<rparr>],
      [\<lparr>cls_name = ''car'', xyxy = (4, 4, 6, 6)\<rparr>],
      [\<lparr>cls_name = ''car'', xyxy = (4, 4, 6, 6)\<rparr>]]
   = (Inl TypeError,
      \<lparr> cumulative_zone_counts = [[]], cumulative_total = 0, overall_class_counts = None,
        written = [], cap_released = False, writer_released = False \<rparr>)"
  by (simp add: main_video_def process_frame_counts_eq)

text \<open>
  Claim C8, as amended. Each of the two handles is released exactly when the frame loop
  ends because \<^verbatim>\<open>cap.read()\<close> delivers no frame (end of stream or a failed read), that is
  when no frame's processing raises; the run then prints its result. When a frame's
  processing raises, neither handle is released.
\<close>

theorem handles_released_iff_no_exception:
  "cap_released (snd (main_video nz video))
     = (\<forall>dets \<in> set video. \<exists>r. process_frame_counts [] (filter selected nz) dets = Inr r)
   \<and> writer_released (snd (main_video nz video))
     = (\<forall>dets \<in> set video. \<exists>r. process_frame_counts [] (filter selected nz) dets = Inr r)
   \<and> (\<exists>res. fst (main_video nz video) = Inr res)
     = (\<forall>dets \<in> set video. \<exists>r. process_frame_counts [] (filter selected nz) dets = Inr r)"
proof -
  let ?zs = "filter selected nz"
  let ?st0 = "\<lparr> cumulative_zone_counts = replicate (length ?zs) [],
                  cumulative_total = 0, overall_class_counts = None, written = [],
                  cap_released = False, writer_released = False \<rparr>"
  obtain e st where l: "video_loop ?zs ?st0 video = (e, st)" by (cases "video_loop ?zs ?st0 video")
  from video_loop_released [of ?zs ?st0 video] l
  have r: "\<not> cap_released st" "\<not> writer_released st" by simp_all
  from video_loop_ends [of ?zs ?st0 video] l
  have n: "(e = None) = (\<forall>dets \<in> set video. \<exists>r. process_frame_counts [] ?zs dets = Inr r)" by simp
  show ?thesis
  proof (cases e)
    case None
    with l n show ?thesis by (simp add: main_video_def Let_def)
  next
    case (Some x)
    with l n r show ?thesis by (simp add: main_video_def Let_def)
  qed
qed

theorem handles_released_iff_no_exception_witness:
  "(\<exists>r. process_frame_counts [] [Rect (0, 0, 10, 10) (JStr ''A'') True]
            [\<lparr>cls_name = ''car'', xyxy = (8, 3, 12, 7)\<rparr>] = Inr r)
   \<and> cap_released (snd (main_video [Rect (0, 0, 10, 10) (JStr ''A'') True]
                          [[\<lparr>cls_name = ''car'', xyxy = (8, 3, 12, 7)\<rparr>]]))
   \<and> writer_released (snd (main_video [Rect (0, 0, 10, 10) (JStr ''A'') True]
                          [[\<lparr>cls_name = ''car'', xyxy = (8, 3, 12, 7)\<rparr>]]))
   \<and> (\<exists>res. fst (main_video [Rect (0, 0, 10, 10) (JStr ''A'') True]
                          [[\<lparr>cls_name = ''car'', xyxy = (8, 3, 12, 7)\<rparr>]]) = Inr res)"
proof -
  have h: "\<exists>r. process_frame_counts [] [Rect (0, 0, 10, 10) (JStr ''A'') True]
            [\<lparr>cls_name = ''car'', xyxy = (8, 3, 12, 7)\<rparr>] = Inr r"
    by (simp add: process_frame_counts_eq)
  from handles_released_iff_no_exception [of "[Rect (0, 0, 10, 10) (JStr ''A'') True]"
      "[[\<lparr>cls_name = ''car'', xyxy = (8, 3, 12, 7)\<rparr>]]"] h
  show ?thesis by simp
qed

text \<open>
  When the processing of a frame raises, the exception leaves \<^verbatim>\<open>main\<close> and neither
  \<^verbatim>\<open>cap.release()\<close> nor \<^verbatim>\<open>writer.release()\<close> is reached.
\<close>

theorem handles_not_released_on_exception:
  "fst (main_video [Rect (0, 0, 10, 10) (JStr ''A'') True]
          [[\<lparr>cls_name = ''car'', xyxy = (4, 4, 6, 6)\<rparr>]]) = Inl TypeError
   \<and> \<not> cap_released (snd (main_video [Rect (0, 0, 10, 10) (JStr ''A'') True]
          [[\<lparr>cls_name = ''car'', xyxy = (4, 4, 6, 6)\<rparr>]]))
   \<and> \<not> writer_released (snd (main_video [Rect (0, 0, 10, 10) (JStr ''A'') True]
          [[\<lparr>cls_name = ''car'', xyxy = (4, 4, 6, 6)\<rparr>]]))"
  by (simp add: main_video_def process_frame_counts_eq)

end
